theory Spec2Isabelle
  imports Main "HOL-Library.Multiset"
begin

section \<open>Values exchanged with the client\<close>

text \<open>
  The handlers of \<^verbatim>\<open>app.py\<close> read the request body with \<^verbatim>\<open>request.get_json()\<close> and
  hand Python dictionaries, lists, strings, numbers, booleans and \<^verbatim>\<open>None\<close> to
  \<^verbatim>\<open>jsonify\<close>. These values are modelled by one datatype. A dictionary is an association
  list, in insertion order, as a Python \<^verbatim>\<open>dict\<close> keeps it. Numbers are integers: no
  handler computes with them.
\<close>

datatype json =
    JNull
  | JBool bool
  | JInt int
  | JStr string
  | JList "json list"
  | JObj "(string \<times> json) list"

text \<open>Python's truth value of an object, as \<^verbatim>\<open>not x\<close> and \<^verbatim>\<open>if x\<close> test it.\<close>

fun truthy :: "json \<Rightarrow> bool" where
  "truthy JNull = False"
| "truthy (JBool b) = b"
| "truthy (JInt n) = (n \<noteq> 0)"
| "truthy (JStr s) = (s \<noteq> [])"
| "truthy (JList xs) = (xs \<noteq> [])"
| "truthy (JObj kvs) = (kvs \<noteq> [])"

datatype error =
    AttributeError | KeyError | TypeError | OperationalError | BadRequest | UnsupportedMediaType

text \<open>A call that may raise is followed by the rest of the computation only when it
  returns.\<close>

definition and_then :: "error + 'a \<Rightarrow> ('a \<Rightarrow> error + 'b) \<Rightarrow> error + 'b" where
  "and_then m k = (case m of Inl e \<Rightarrow> Inl e | Inr v \<Rightarrow> k v)"

text \<open>
  \<^verbatim>\<open>data.get(key)\<close>, \<^verbatim>\<open>data.get(key, default)\<close> and \<^verbatim>\<open>data[key]\<close>. Only a dictionary has
  the method \<^verbatim>\<open>get\<close>; on any other value the call raises \<^verbatim>\<open>AttributeError\<close>. The handler
  subscripts \<^verbatim>\<open>data\<close> only after \<^verbatim>\<open>get\<close> has succeeded on it, so the subscript is modelled
  on dictionaries and raises on everything else.
\<close>

fun py_get :: "json \<Rightarrow> string \<Rightarrow> error + json" where
  "py_get (JObj kvs) k = Inr (case map_of kvs k of None \<Rightarrow> JNull | Some v \<Rightarrow> v)"
| "py_get _ k = Inl AttributeError"

fun py_get_default :: "json \<Rightarrow> string \<Rightarrow> json \<Rightarrow> error + json" where
  "py_get_default (JObj kvs) k d = Inr (case map_of kvs k of None \<Rightarrow> d | Some v \<Rightarrow> v)"
| "py_get_default _ k d = Inl AttributeError"

fun py_getitem :: "json \<Rightarrow> string \<Rightarrow> error + json" where
  "py_getitem (JObj kvs) k = (case map_of kvs k of None \<Rightarrow> Inl KeyError | Some v \<Rightarrow> Inr v)"
| "py_getitem _ k = Inl TypeError"

section \<open>Dates and their text form\<close>

text \<open>
  \<^verbatim>\<open>datetime.date\<close> and \<^verbatim>\<open>datetime.datetime\<close> (a subclass of \<^verbatim>\<open>date\<close>). The library
  keeps every date within year 1 to 9999 and every field within its calendar range;
  \<open>date_ok\<close> states this invariant.
\<close>

record date =
  year :: nat
  month :: nat
  day :: nat

record datetime = date +
  hour :: nat
  minute :: nat
  second :: nat
  microsecond :: nat

definition is_leap :: "nat \<Rightarrow> bool" where
  "is_leap y = (y mod 4 = 0 \<and> (y mod 100 \<noteq> 0 \<or> y mod 400 = 0))"

definition days_in_month :: "nat \<Rightarrow> nat \<Rightarrow> nat" where
  "days_in_month y m =
     (if m = 2 then (if is_leap y then 29 else 28)
      else if m = 4 \<or> m = 6 \<or> m = 9 \<or> m = 11 then 30 else 31)"

definition date_ok :: "'a date_scheme \<Rightarrow> bool" where
  "date_ok d = (1 \<le> year d \<and> year d \<le> 9999 \<and> 1 \<le> month d \<and> month d \<le> 12
                \<and> 1 \<le> day d \<and> day d \<le> days_in_month (year d) (month d))"

definition digit_char :: "nat \<Rightarrow> char" where
  "digit_char n = ''0123456789'' ! (n mod 10)"

text \<open>
  \<^verbatim>\<open>strftime\<close> is the one of the C library. The directives \<^verbatim>\<open>%m %d %H %M %S\<close> print two
  digits. On the platform the repository is deployed on (\<^verbatim>\<open>deploy.py\<close> builds on
  \<^verbatim>\<open>python:3.11-slim\<close>) the directive \<^verbatim>\<open>%Y\<close> prints the year as a decimal number without
  padding: \<^verbatim>\<open>2025\<close>, and \<^verbatim>\<open>999\<close> for the year 999.
\<close>

definition fmt2 :: "nat \<Rightarrow> string" where
  "fmt2 n = [digit_char (n div 10), digit_char n]"

function decimal :: "nat \<Rightarrow> string" where
  "decimal n = (if n < 10 then [digit_char n] else decimal (n div 10) @ [digit_char n])"
  by pat_completeness auto
termination
  by (relation "measure (\<lambda>n. n)") auto

declare decimal.simps [simp del]

text \<open>\<^verbatim>\<open>strftime('%Y-%m-%d')\<close> and \<^verbatim>\<open>strftime('%Y-%m-%d %H:%M:%S')\<close>.\<close>

definition strftime_date :: "'a date_scheme \<Rightarrow> string" where
  "strftime_date d = decimal (year d) @ ''-'' @ fmt2 (month d) @ ''-'' @ fmt2 (day d)"

definition strftime_datetime :: "datetime \<Rightarrow> string" where
  "strftime_datetime t =
     strftime_date t @ '' '' @ fmt2 (hour t) @ '':'' @ fmt2 (minute t) @ '':'' @ fmt2 (second t)"

section \<open>\<^verbatim>\<open>str.split\<close> on the comma\<close>

text \<open>
  \<^verbatim>\<open>s.split(',')\<close> with a one-character separator: the pieces between the separators,
  empty pieces kept. The empty string gives one empty piece, which is why the callers
  guard the call with \<^verbatim>\<open>if ... else []\<close>.
\<close>

fun split :: "char \<Rightarrow> string \<Rightarrow> string list" where
  "split c [] = [[]]"
| "split c (x # xs) =
     (if x = c then [] # split c xs
      else (case split c xs of [] \<Rightarrow> [[x]] | w # ws \<Rightarrow> (x # w) # ws))"

section \<open>The models of \<^verbatim>\<open>models.py\<close>\<close>

text \<open>
  One record for each model class. A column that may hold \<^verbatim>\<open>None\<close> is an option; so are
  the columns that \<^verbatim>\<open>to_dict\<close> tests before it formats them, since an object that was not
  loaded from the table may hold \<^verbatim>\<open>None\<close> there. The primary key is \<^verbatim>\<open>None\<close> until the row
  is inserted. The text columns of a contact message hold whatever value the request
  body carried.
\<close>

record Project =
  project_id :: "int option"
  project_title :: string
  project_description :: string
  project_tech_stack :: "string option"
  project_date_created :: "date option"
  project_github_url :: "string option"
  project_demo_url :: "string option"
  project_image_url :: "string option"
  project_featured :: "bool option"
  project_created_at :: "datetime option"

record Skill =
  skill_id :: "int option"
  skill_name :: string
  skill_category :: string
  skill_proficiency_level :: "int option"
  skill_icon_class :: "string option"
  skill_created_at :: "datetime option"

record ContactMessage =
  contact_id :: "int option"
  contact_name :: json
  contact_email :: json
  contact_subject :: json
  contact_message :: json
  contact_ip_address :: "string option"
  contact_created_at :: "datetime option"
  contact_read_status :: "bool option"

text \<open>How a nullable attribute is written into a dictionary.\<close>

definition opt_int :: "int option \<Rightarrow> json" where
  "opt_int v = (case v of None \<Rightarrow> JNull | Some n \<Rightarrow> JInt n)"

definition opt_str :: "string option \<Rightarrow> json" where
  "opt_str v = (case v of None \<Rightarrow> JNull | Some s \<Rightarrow> JStr s)"

definition opt_bool :: "bool option \<Rightarrow> json" where
  "opt_bool v = (case v of None \<Rightarrow> JNull | Some b \<Rightarrow> JBool b)"

text \<open>\<^verbatim>\<open>x.split(',') if x else []\<close>: \<^verbatim>\<open>None\<close> and the empty string are both false.\<close>

definition tech_stack_list :: "string option \<Rightarrow> json" where
  "tech_stack_list x =
     (case x of
        None \<Rightarrow> JList []
      | Some s \<Rightarrow> if s \<noteq> [] then JList (map JStr (split CHR '','' s)) else JList [])"

text \<open>\<^verbatim>\<open>x.strftime('%Y-%m-%d') if x else None\<close>: a date object is always true.\<close>

definition date_text :: "date option \<Rightarrow> json" where
  "date_text x = (case x of None \<Rightarrow> JNull | Some d \<Rightarrow> JStr (strftime_date d))"

text \<open>\<^verbatim>\<open>x.strftime('%Y-%m-%d %H:%M:%S') if x else None\<close>.\<close>

definition datetime_text :: "datetime option \<Rightarrow> json" where
  "datetime_text x = (case x of None \<Rightarrow> JNull | Some t \<Rightarrow> JStr (strftime_datetime t))"

text \<open>\<^verbatim>\<open>Project.to_dict\<close> and \<^verbatim>\<open>Skill.to_dict\<close>.\<close>

definition Project_to_dict :: "Project \<Rightarrow> (string \<times> json) list" where
  "Project_to_dict self =
     [(''id'', opt_int (project_id self)),
      (''title'', JStr (project_title self)),
      (''description'', JStr (project_description self)),
      (''tech_stack'', tech_stack_list (project_tech_stack self)),
      (''date_created'', date_text (project_date_created self)),
      (''github_url'', opt_str (project_github_url self)),
      (''demo_url'', opt_str (project_demo_url self)),
      (''image_url'', opt_str (project_image_url self)),
      (''featured'', opt_bool (project_featured self)),
      (''created_at'', datetime_text (project_created_at self))]"


section \<open>The database and the session\<close>

text \<open>
  The three tables, in row order, and the state of \<^verbatim>\<open>db.session\<close>: the objects added
  and not yet written (\<open>session_new\<close>), and the rows written inside the open transaction
  and not yet committed (\<open>session_flushed\<close>).

  Whether the database answers is not decided by the program. A \<open>fault\<close> says what goes
  wrong during one request: nothing, a query that raises, an \<^verbatim>\<open>INSERT\<close> that raises while
  the session is flushed, or a \<^verbatim>\<open>COMMIT\<close> that raises after the rows were written.
\<close>

record store =
  projects :: "Project list"
  skills :: "Skill list"
  contact_messages :: "ContactMessage list"
  session_new :: "ContactMessage list"
  session_flushed :: "ContactMessage list"

datatype fault = NoFault | QueryFails | FlushFails | CommitFails

text \<open>\<^verbatim>\<open>Project.query.all()\<close>, \<^verbatim>\<open>Project.query.filter_by(featured=True).all()\<close> and
  \<^verbatim>\<open>Skill.query.all()\<close>. The filter is the SQL comparison \<^verbatim>\<open>featured = true\<close>, which a
  \<^verbatim>\<open>NULL\<close> flag does not satisfy.\<close>

definition Project_query_all :: "fault \<Rightarrow> store \<Rightarrow> error + Project list" where
  "Project_query_all f st =
     (if f = QueryFails then Inl OperationalError else Inr (projects st))"

definition Project_query_filter_by_featured :: "fault \<Rightarrow> store \<Rightarrow> error + Project list" where
  "Project_query_filter_by_featured f st =
     (if f = QueryFails then Inl OperationalError
      else Inr (filter (\<lambda>p. project_featured p = Some True) (projects st)))"

definition Skill_query_all :: "fault \<Rightarrow> store \<Rightarrow> error + Skill list" where
  "Skill_query_all f st =
     (if f = QueryFails then Inl OperationalError else Inr (skills st))"

text \<open>
  \<^verbatim>\<open>db.session.add\<close>, \<^verbatim>\<open>db.session.commit\<close> and \<^verbatim>\<open>db.session.rollback\<close>. The commit first
  flushes: every new object gets the next free key and the column defaults
  (\<^verbatim>\<open>created_at\<close> the current time, \<^verbatim>\<open>read_status\<close> false) and is written inside the
  transaction. Then the transaction is committed and its rows join the table. A
  rollback drops the new objects and the rows of the open transaction.
\<close>

definition next_id :: "ContactMessage list \<Rightarrow> int" where
  "next_id rows = 1 + foldr (\<lambda>m a. max (case contact_id m of None \<Rightarrow> 0 | Some i \<Rightarrow> i) a) rows 0"

definition session_add :: "ContactMessage \<Rightarrow> store \<Rightarrow> store" where
  "session_add m st = st\<lparr>session_new := session_new st @ [m]\<rparr>"

definition insert_defaults :: "datetime \<Rightarrow> int \<Rightarrow> ContactMessage \<Rightarrow> ContactMessage" where
  "insert_defaults now i m =
     m\<lparr>contact_id := (case contact_id m of None \<Rightarrow> Some i | Some j \<Rightarrow> Some j),
       contact_created_at := (case contact_created_at m of None \<Rightarrow> Some now | Some t \<Rightarrow> Some t),
       contact_read_status := (case contact_read_status m of None \<Rightarrow> Some False | Some b \<Rightarrow> Some b)\<rparr>"

fun flush_rows :: "datetime \<Rightarrow> ContactMessage list \<Rightarrow> ContactMessage list \<Rightarrow> ContactMessage list" where
  "flush_rows now existing [] = []"
| "flush_rows now existing (m # ms) =
     (let row = insert_defaults now (next_id existing) m
      in row # flush_rows now (existing @ [row]) ms)"

definition session_commit :: "fault \<Rightarrow> datetime \<Rightarrow> store \<Rightarrow> (error + unit) \<times> store" where
  "session_commit f now st =
     (if f = FlushFails then (Inl OperationalError, st)
      else
        let rows = flush_rows now (contact_messages st @ session_flushed st) (session_new st);
            st1 = st\<lparr>session_new := [], session_flushed := session_flushed st @ rows\<rparr>
        in if f = CommitFails then (Inl OperationalError, st1)
           else (Inr (), st1\<lparr>contact_messages := contact_messages st1 @ session_flushed st1,
                               session_flushed := []\<rparr>))"

definition session_rollback :: "store \<Rightarrow> store" where
  "session_rollback st = st\<lparr>session_new := [], session_flushed := []\<rparr>"

section \<open>The handlers of \<^verbatim>\<open>app.py\<close>\<close>

text \<open>A response is the value given to \<^verbatim>\<open>jsonify\<close> and the HTTP status.\<close>

type_synonym response = "json \<times> nat"

text \<open>The dictionary that \<^verbatim>\<open>get_projects\<close> and \<^verbatim>\<open>get_featured_projects\<close> append for one
  project, and the loop that appends it.\<close>

definition project_data :: "Project \<Rightarrow> (string \<times> json) list" where
  "project_data project =
     [(''id'', opt_int (project_id project)),
      (''title'', JStr (project_title project)),
      (''description'', JStr (project_description project)),
      (''tech_stack'', tech_stack_list (project_tech_stack project)),
      (''date_created'', date_text (project_date_created project)),
      (''github_url'', opt_str (project_github_url project)),
      (''demo_url'', opt_str (project_demo_url project)),
      (''featured'', opt_bool (project_featured project))]"

fun projects_loop :: "Project list \<Rightarrow> json list \<Rightarrow> json list" where
  "projects_loop [] projects_data = projects_data"
| "projects_loop (project # rest) projects_data =
     projects_loop rest (projects_data @ [JObj (project_data project)])"

definition get_projects :: "fault \<Rightarrow> store \<Rightarrow> response" where
  "get_projects f st =
     (case Project_query_all f st of
        Inr ps \<Rightarrow>
          (JObj [(''status'', JStr ''success''),
                 (''data'', JObj [(''projects'', JList (projects_loop ps []))]),
                 (''message'', JStr ''Projects retrieved successfully'')], 200)
      | Inl e \<Rightarrow>
          (JObj [(''status'', JStr ''error''),
                 (''error'', JObj [(''code'', JStr ''DATABASE_ERROR''),
                                   (''message'', JStr ''Failed to retrieve projects'')])], 500))"

definition get_featured_projects :: "fault \<Rightarrow> store \<Rightarrow> response" where
  "get_featured_projects f st =
     (case Project_query_filter_by_featured f st of
        Inr ps \<Rightarrow>
          (JObj [(''status'', JStr ''success''),
                 (''data'', JObj [(''projects'', JList (projects_loop ps []))]),
                 (''message'', JStr ''Featured projects retrieved successfully'')], 200)
      | Inl e \<Rightarrow>
          (JObj [(''status'', JStr ''error''),
                 (''error'', JObj [(''code'', JStr ''DATABASE_ERROR''),
                                   (''message'', JStr ''Failed to retrieve featured projects'')])], 500))"

text \<open>
  \<^verbatim>\<open>get_skills\<close>. The dictionary \<^verbatim>\<open>skills_by_category\<close> is an association list in
  insertion order; a new key goes to the end and appending to the list of a key leaves
  the order of the keys alone.
\<close>

definition skill_data :: "Skill \<Rightarrow> (string \<times> json) list" where
  "skill_data skill =
     [(''id'', opt_int (skill_id skill)),
      (''name'', JStr (skill_name skill)),
      (''proficiency_level'', opt_int (skill_proficiency_level skill)),
      (''icon_class'', opt_str (skill_icon_class skill))]"

fun dict_append :: "string \<Rightarrow> json \<Rightarrow> (string \<times> json list) list \<Rightarrow> (string \<times> json list) list" where
  "dict_append k v [] = []"
| "dict_append k v ((k', vs) # d) =
     (if k' = k then (k', vs @ [v]) # d else (k', vs) # dict_append k v d)"

definition skills_step :: "Skill \<Rightarrow> (string \<times> json list) list \<Rightarrow> (string \<times> json list) list" where
  "skills_step skill skills_by_category =
     (let category = skill_category skill;
          d = (if category \<notin> fst ` set skills_by_category
               then skills_by_category @ [(category, [])] else skills_by_category)
      in dict_append category (JObj (skill_data skill)) d)"

fun skills_loop :: "Skill list \<Rightarrow> (string \<times> json list) list \<Rightarrow> (string \<times> json list) list" where
  "skills_loop [] skills_by_category = skills_by_category"
| "skills_loop (skill # rest) skills_by_category =
     skills_loop rest (skills_step skill skills_by_category)"

definition get_skills :: "fault \<Rightarrow> store \<Rightarrow> response" where
  "get_skills f st =
     (case Skill_query_all f st of
        Inr ss \<Rightarrow>
          (JObj [(''status'', JStr ''success''),
                 (''data'', JObj [(''skills'',
                      JObj (map (\<lambda>(c, g). (c, JList g)) (skills_loop ss [])))]),
                 (''message'', JStr ''Skills retrieved successfully'')], 200)
      | Inl e \<Rightarrow>
          (JObj [(''status'', JStr ''error''),
                 (''error'', JObj [(''code'', JStr ''DATABASE_ERROR''),
                                   (''message'', JStr ''Failed to retrieve skills'')])], 500))"

text \<open>
  \<^verbatim>\<open>submit_contact\<close>. A request carries what \<^verbatim>\<open>request.get_json()\<close> gives and the address
  of the caller. \<^verbatim>\<open>get_json\<close> returns the parsed body, or raises: \<^verbatim>\<open>BadRequest\<close> when the
  body is not JSON text, \<^verbatim>\<open>UnsupportedMediaType\<close> when the request does not announce JSON.
  The body of the \<^verbatim>\<open>try\<close> statement returns a response or raises, together with the
  store as it then is; the handler of \<^verbatim>\<open>except Exception\<close> rolls the session back and
  answers with the database error, whatever was raised.
\<close>

record request =
  get_json :: "error + json"
  remote_addr :: "string option"

text \<open>The condition \<^verbatim>\<open>not data or not data.get('name') or not data.get('email') or
  not data.get('message')\<close>, evaluated left to right.\<close>

definition required_missing :: "json \<Rightarrow> error + bool" where
  "required_missing data =
     (if \<not> truthy data then Inr True
      else and_then (py_get data ''name'') (\<lambda>name.
        if \<not> truthy name then Inr True
        else and_then (py_get data ''email'') (\<lambda>email.
          if \<not> truthy email then Inr True
          else and_then (py_get data ''message'') (\<lambda>message.
            Inr (\<not> truthy message)))))"

text \<open>The constructor call \<^verbatim>\<open>ContactMessage(name=data['name'], email=data['email'],
  subject=data.get('subject', ''), message=data['message'], ip_address=request.remote_addr)\<close>;
  the columns it does not name stay \<^verbatim>\<open>None\<close> until the row is inserted.\<close>

definition new_contact_message :: "json \<Rightarrow> string option \<Rightarrow> error + ContactMessage" where
  "new_contact_message data addr =
     and_then (py_getitem data ''name'') (\<lambda>name.
     and_then (py_getitem data ''email'') (\<lambda>email.
     and_then (py_get_default data ''subject'' (JStr [])) (\<lambda>subject.
     and_then (py_getitem data ''message'') (\<lambda>message.
       Inr \<lparr>contact_id = None, contact_name = name, contact_email = email,
            contact_subject = subject, contact_message = message,
            contact_ip_address = addr,
            contact_created_at = None, contact_read_status = None\<rparr>))))"

definition submit_contact_try :: "fault \<Rightarrow> datetime \<Rightarrow> request \<Rightarrow> store \<Rightarrow> (error + response) \<times> store" where
  "submit_contact_try f now req st =
     (case get_json req of
        Inl e \<Rightarrow> (Inl e, st)
      | Inr data \<Rightarrow>
     (case required_missing data of
        Inl e \<Rightarrow> (Inl e, st)
      | Inr True \<Rightarrow>
          (Inr (JObj [(''status'', JStr ''error''),
                      (''error'', JObj [(''code'', JStr ''VALIDATION_ERROR''),
                         (''message'', JStr ''Name, email, and message are required fields'')])],
                400), st)
      | Inr False \<Rightarrow>
          (case new_contact_message data (remote_addr req) of
             Inl e \<Rightarrow> (Inl e, st)
           | Inr new_message \<Rightarrow>
               (case session_commit f now (session_add new_message st) of
                  (Inl e, st') \<Rightarrow> (Inl e, st')
                | (Inr u, st') \<Rightarrow>
                    (Inr (JObj [(''status'', JStr ''success''),
                                (''message'', JStr ''Message sent successfully'')], 200), st')))))"

definition submit_contact :: "fault \<Rightarrow> datetime \<Rightarrow> request \<Rightarrow> store \<Rightarrow> response \<times> store" where
  "submit_contact f now req st =
     (case submit_contact_try f now req st of
        (Inr resp, st') \<Rightarrow> (resp, st')
      | (Inl e, st') \<Rightarrow>
          ((JObj [(''status'', JStr ''error''),
                  (''error'', JObj [(''code'', JStr ''DATABASE_ERROR''),
                                    (''message'', JStr ''Failed to send message'')])], 500),
           session_rollback st'))"

section \<open>Reading a representation back\<close>

text \<open>
  The repository only writes representations. The round trip of the technology list and
  of the creation date is stated against the library operations that read them back:
  \<^verbatim>\<open>','.join\<close> on the list of labels, and \<^verbatim>\<open>datetime.strptime(text, '%Y-%m-%d')\<close> on the
  date. \<^verbatim>\<open>strptime\<close> wants exactly four digits for \<^verbatim>\<open>%Y\<close>, then a hyphen, the month in one or
  two digits from 1 to 12, a hyphen, and the day in one or two digits from 1 to 31, or a
  space and one digit; nothing may follow, and the date must exist.
\<close>

fun join :: "char \<Rightarrow> string list \<Rightarrow> string" where
  "join c [] = []"
| "join c [w] = w"
| "join c (w # ws) = w @ c # join c ws"

fun json_strings :: "json list \<Rightarrow> string list option" where
  "json_strings [] = Some []"
| "json_strings (JStr s # js) = map_option ((#) s) (json_strings js)"
| "json_strings (_ # js) = None"

definition parse_tech_stack :: "json \<Rightarrow> string option" where
  "parse_tech_stack j =
     (case j of JList js \<Rightarrow> map_option (join CHR '','') (json_strings js) | _ \<Rightarrow> None)"

definition is_digit :: "char \<Rightarrow> bool" where
  "is_digit c = (48 \<le> (of_char c :: nat) \<and> (of_char c :: nat) \<le> 57)"

definition digit_val :: "char \<Rightarrow> nat" where
  "digit_val c = of_char c - 48"

definition number :: "string \<Rightarrow> nat" where
  "number ds = foldl (\<lambda>a c. 10 * a + digit_val c) 0 ds"

definition month_field :: "string \<Rightarrow> bool" where
  "month_field m =
     (list_all is_digit m \<and> (length m = 1 \<or> length m = 2) \<and> 1 \<le> number m \<and> number m \<le> 12)"

definition day_field :: "string \<Rightarrow> bool" where
  "day_field d =
     ((list_all is_digit d \<and> (length d = 1 \<or> length d = 2) \<and> 1 \<le> number d \<and> number d \<le> 31)
      \<or> (length d = 2 \<and> d ! 0 = CHR '' '' \<and> is_digit (d ! 1) \<and> 1 \<le> digit_val (d ! 1)))"

definition day_value :: "string \<Rightarrow> nat" where
  "day_value d = number (dropWhile (\<lambda>c. c = CHR '' '') d)"

definition strptime_date :: "string \<Rightarrow> date option" where
  "strptime_date s =
     (if 5 \<le> length s \<and> list_all is_digit (take 4 s) \<and> s ! 4 = CHR ''-''
      then
        (case split CHR ''-'' (drop 5 s) of
           [m, d] \<Rightarrow>
             if month_field m \<and> day_field d
             then
               let dt = \<lparr>year = number (take 4 s), month = number m, day = day_value d\<rparr>
               in if date_ok dt then Some dt else None
             else None
         | _ \<Rightarrow> None)
      else None)"

definition parse_date_created :: "json \<Rightarrow> date option" where
  "parse_date_created j = (case j of JStr s \<Rightarrow> strptime_date s | _ \<Rightarrow> None)"

section \<open>Reading a response\<close>

text \<open>The list under \<^verbatim>\<open>data.projects\<close> of a response, when there is one, and the test
  that a representation carries \<^verbatim>\<open>featured\<close> true.\<close>

definition response_projects :: "response \<Rightarrow> json list option" where
  "response_projects r =
     (case fst r of
        JObj kvs \<Rightarrow>
          (case map_of kvs ''data'' of
             Some (JObj d) \<Rightarrow>
               (case map_of d ''projects'' of Some (JList ps) \<Rightarrow> Some ps | _ \<Rightarrow> None)
           | _ \<Rightarrow> None)
      | _ \<Rightarrow> None)"

definition featured_true :: "json \<Rightarrow> bool" where
  "featured_true j =
     (case j of JObj kvs \<Rightarrow> map_of kvs ''featured'' = Some (JBool True) | _ \<Rightarrow> False)"



text \<open>The representations of the skills of one category, in table order.\<close>

definition group_of :: "Skill list \<Rightarrow> string \<Rightarrow> json list" where
  "group_of ss c = map (\<lambda>s. JObj (skill_data s)) (filter (\<lambda>s. skill_category s = c) ss)"

text \<open>The characters for which \<^verbatim>\<open>str.isspace\<close> holds among the first 128.\<close>

definition is_space :: "char \<Rightarrow> bool" where
  "is_space c = (c \<in> {CHR '' '', CHR 0x09, CHR 0x0A, CHR 0x0B, CHR 0x0C, CHR 0x0D,
                       CHR 0x1C, CHR 0x1D, CHR 0x1E, CHR 0x1F})"

section \<open>Data of the test suite and of the seed script\<close>

text \<open>
  The rows that \<^verbatim>\<open>test_api.py\<close> inserts in \<^verbatim>\<open>setUp\<close>, the first project of
  \<^verbatim>\<open>init_db.py\<close>, the skill of \<^verbatim>\<open>test_skill_to_dict\<close> after the two others, the project
  of \<^verbatim>\<open>test_project_tech_stack_empty\<close> and the request of
  \<^verbatim>\<open>test_submit_contact_success\<close>. The insertion time is a fixed one, and the
  description of the seeded project is cut after its first words.
\<close>

definition test_time :: datetime where
  "test_time = \<lparr>year = 2025, month = 8, day = 15, hour = 10, minute = 30, second = 0,
                 microsecond = 0\<rparr>"

definition project1 :: Project where
  "project1 = \<lparr>project_id = Some 1, project_title = ''Test Project 1'',
     project_description = ''First test project'', project_tech_stack = Some ''Python,Flask'',
     project_date_created = Some \<lparr>year = 2025, month = 1, day = 1\<rparr>,
     project_github_url = None, project_demo_url = None, project_image_url = None,
     project_featured = Some True, project_created_at = Some test_time\<rparr>"

definition project2 :: Project where
  "project2 = \<lparr>project_id = Some 2, project_title = ''Test Project 2'',
     project_description = ''Second test project'', project_tech_stack = Some ''JavaScript,React'',
     project_date_created = Some \<lparr>year = 2025, month = 2, day = 1\<rparr>,
     project_github_url = None, project_demo_url = None, project_image_url = None,
     project_featured = Some False, project_created_at = Some test_time\<rparr>"

definition skill1 :: Skill where
  "skill1 = \<lparr>skill_id = Some 1, skill_name = ''Python'', skill_category = ''programming'',
     skill_proficiency_level = Some 4, skill_icon_class = None,
     skill_created_at = Some test_time\<rparr>"

definition skill2 :: Skill where
  "skill2 = \<lparr>skill_id = Some 2, skill_name = ''Excel'', skill_category = ''tools'',
     skill_proficiency_level = Some 3, skill_icon_class = None,
     skill_created_at = Some test_time\<rparr>"

definition skill3 :: Skill where
  "skill3 = \<lparr>skill_id = Some 3, skill_name = ''JavaScript'', skill_category = ''programming'',
     skill_proficiency_level = Some 3, skill_icon_class = Some ''fab fa-js-square'',
     skill_created_at = Some test_time\<rparr>"

definition test_store :: store where
  "test_store = \<lparr>projects = [project1, project2], skills = [skill1, skill2],
     contact_messages = [], session_new = [], session_flushed = []\<rparr>"

definition three_skills_store :: store where
  "three_skills_store = \<lparr>projects = [], skills = [skill1, skill2, skill3],
     contact_messages = [], session_new = [], session_flushed = []\<rparr>"

definition seed_project :: Project where
  "seed_project = \<lparr>project_id = Some 1, project_title = ''Fake News Detection Web App'',
     project_description = ''A machine learning-powered web application'',
     project_tech_stack = Some ''Flask,Python,Scikit-learn,MongoDB,HTML,CSS,JavaScript'',
     project_date_created = Some \<lparr>year = 2025, month = 8, day = 15\<rparr>,
     project_github_url = Some ''https://github.com/jaiyan-th/fake-news-detector'',
     project_demo_url = None,
     project_image_url = Some ''/static/images/fake-news-project.jpg'',
     project_featured = Some True, project_created_at = Some test_time\<rparr>"

definition seed_store :: store where
  "seed_store = \<lparr>projects = [seed_project], skills = [], contact_messages = [],
     session_new = [], session_flushed = []\<rparr>"

definition empty_stack_project :: Project where
  "empty_stack_project = \<lparr>project_id = Some 1, project_title = ''Empty Tech Stack Project'',
     project_description = ''Project with no tech stack'', project_tech_stack = Some [],
     project_date_created = Some \<lparr>year = 2025, month = 8, day = 15\<rparr>,
     project_github_url = None, project_demo_url = None, project_image_url = None,
     project_featured = Some False, project_created_at = Some test_time\<rparr>"

text \<open>The first project of the test suite, created on the first day of the year 999.\<close>

definition early_project :: Project where
  "early_project = \<lparr>project_id = Some 1, project_title = ''Test Project 1'',
     project_description = ''First test project'', project_tech_stack = Some ''Python,Flask'',
     project_date_created = Some \<lparr>year = 999, month = 1, day = 1\<rparr>,
     project_github_url = None, project_demo_url = None, project_image_url = None,
     project_featured = Some True, project_created_at = Some test_time\<rparr>"

definition john_request :: request where
  "john_request = \<lparr>get_json = Inr (JObj [(''name'', JStr ''John Doe''),
       (''email'', JStr ''john@example.com''), (''message'', JStr ''Test message'')]),
     remote_addr = Some ''127.0.0.1''\<rparr>"

definition unnamed_request :: request where
  "unnamed_request = \<lparr>get_json = Inr (JObj [(''name'', JStr []),
       (''email'', JStr ''a@b.com''), (''message'', JStr ''hi'')]),
     remote_addr = Some ''127.0.0.1''\<rparr>"

definition blank_request :: request where
  "blank_request = \<lparr>get_json = Inr (JObj [(''name'', JStr '' ''),
       (''email'', JStr '' ''), (''message'', JStr '' '')]),
     remote_addr = Some ''127.0.0.1''\<rparr>"

text \<open>Three more bodies a client can post: the JSON array \<^verbatim>\<open>[1]\<close>, text that is not JSON,
  and the JSON value \<^verbatim>\<open>null\<close>. None of them has a name, an email or a message.\<close>

definition array_request :: request where
  "array_request = \<lparr>get_json = Inr (JList [JInt 1]), remote_addr = Some ''127.0.0.1''\<rparr>"

definition unparsable_request :: request where
  "unparsable_request = \<lparr>get_json = Inl BadRequest, remote_addr = Some ''127.0.0.1''\<rparr>"

definition null_request :: request where
  "null_request = \<lparr>get_json = Inr JNull, remote_addr = Some ''127.0.0.1''\<rparr>"

section \<open>Splitting and joining\<close>

lemma split_not_Nil: "split c s \<noteq> []"
  by (induction s) (auto split: list.splits)

lemma split_empty: "split c [] = [[]]"
  by simp

lemma join_split: "join c (split c s) = s"
proof (induction s)
  case Nil
  show ?case by simp
next
  case (Cons x s)
  obtain w ws where sp: "split c s = w # ws"
    using split_not_Nil[of c s] by (cases "split c s") auto
  show ?case
  proof (cases "x = c")
    case True
    with Cons sp show ?thesis by simp
  next
    case False
    have "join c ((x # w) # ws) = x # join c (w # ws)"
      by (cases ws) simp_all
    with False Cons sp show ?thesis by simp
  qed
qed

lemma json_strings_map: "json_strings (map JStr xs) = Some xs"
  by (induction xs) simp_all

lemma parse_tech_stack_list: "parse_tech_stack (tech_stack_list (Some s)) = Some s"
  by (simp add: parse_tech_stack_def tech_stack_list_def json_strings_map join_split)

section \<open>Digits and dates\<close>

lemma below_ten:
  fixes k :: nat
  assumes "k < 10"
  shows "k \<in> {0, 1, 2, 3, 4, 5, 6, 7, 8, 9}"
  using assms by auto

lemma digit_index:
  "k < 10 \<Longrightarrow> digit_val (''0123456789'' ! k) = k \<and> is_digit (''0123456789'' ! k)"
  by (drule below_ten) (auto simp: digit_val_def is_digit_def)

lemma digit_val_char: "digit_val (digit_char n) = n mod 10"
  by (simp add: digit_char_def digit_index)

lemma is_digit_char: "is_digit (digit_char n)"
  by (simp add: digit_char_def digit_index)

lemma number_fmt2:
  assumes "n \<le> 99"
  shows "number (fmt2 n) = n"
proof -
  have "n div 10 < 10" using assms by simp
  then have "(n div 10) mod 10 = n div 10" by simp
  moreover have "10 * (n div 10) + n mod 10 = n" by simp
  ultimately show ?thesis
    by (simp add: number_def fmt2_def digit_val_char)
qed

lemma number_four_digits:
  assumes "n \<le> 9999"
  shows "number [digit_char (n div 1000), digit_char (n div 100), digit_char (n div 10),
                 digit_char n] = n"
proof -
  define a where "a = n div 10"
  define b where "b = a div 10"
  define c where "c = b div 10"
  have b': "n div 100 = b" unfolding b_def a_def by (simp add: div_mult2_eq[symmetric])
  have c': "n div 1000 = c" unfolding c_def b_def a_def by (simp add: div_mult2_eq[symmetric])
  have "c < 10" using assms c' by simp
  then have cm: "c mod 10 = c" by simp
  have 1: "10 * a + n mod 10 = n" unfolding a_def by simp
  have 2: "10 * b + a mod 10 = a" unfolding b_def by simp
  have 3: "10 * c + b mod 10 = b" unfolding c_def by simp
  have "number [digit_char (n div 1000), digit_char (n div 100), digit_char (n div 10),
                digit_char n] = 10 * (10 * (10 * c + b mod 10) + a mod 10) + n mod 10"
    by (simp add: number_def digit_val_char b' c' cm a_def[symmetric])
  also have "\<dots> = n" using 1 2 3 by simp
  finally show ?thesis .
qed

lemma decimal_four_digits:
  assumes "1000 \<le> n" and "n \<le> 9999"
  shows "decimal n = [digit_char (n div 1000), digit_char (n div 100), digit_char (n div 10),
                      digit_char n]"
proof -
  have d2: "n div 10 div 10 = n div 100" and d3: "n div 100 div 10 = n div 1000"
    by (simp_all add: div_mult2_eq[symmetric])
  have c: "\<not> n < 10" "\<not> n div 10 < 10" "\<not> n div 100 < 10" "n div 1000 < 10"
    using assms by simp_all
  have e1: "decimal n = decimal (n div 10) @ [digit_char n]"
    using c(1) by (subst decimal.simps) simp
  have e2: "decimal (n div 10) = decimal (n div 100) @ [digit_char (n div 10)]"
    using c(2) by (subst decimal.simps) (simp add: d2)
  have e3: "decimal (n div 100) = decimal (n div 1000) @ [digit_char (n div 100)]"
    using c(3) by (subst decimal.simps) (simp add: d3)
  have e4: "decimal (n div 1000) = [digit_char (n div 1000)]"
    using c(4) by (subst decimal.simps) simp
  show ?thesis
    by (simp add: e1 e2 e3 e4)
qed

lemma decimal_2025: "decimal 2025 = ''2025''"
  using decimal_four_digits[of 2025] by (simp add: digit_char_def)

lemma decimal_999: "decimal 999 = ''999''"
proof -
  have e1: "decimal 999 = decimal 99 @ [digit_char 999]"
    by (subst decimal.simps) simp
  have e2: "decimal 99 = decimal 9 @ [digit_char 99]"
    by (subst decimal.simps) simp
  have e3: "decimal 9 = [digit_char 9]"
    by (subst decimal.simps) simp
  show ?thesis
    by (simp add: e1 e2 e3 digit_char_def)
qed

lemma fmt2_01: "fmt2 1 = ''01''"
  by (simp add: fmt2_def digit_char_def)

lemma digit_char_not_hyphen: "digit_char n \<noteq> CHR ''-''"
  using is_digit_char[of n] by (auto simp: is_digit_def)

lemma digit_char_not_space: "digit_char n \<noteq> CHR '' ''"
  using is_digit_char[of n] by (auto simp: is_digit_def)

lemma days_in_month_le: "days_in_month y m \<le> 31"
  by (simp add: days_in_month_def)

lemma strftime_date_chars:
  assumes "1000 \<le> year d" and "year d \<le> 9999"
  shows "strftime_date d =
     [digit_char (year d div 1000), digit_char (year d div 100), digit_char (year d div 10),
      digit_char (year d), CHR ''-'', digit_char (month d div 10), digit_char (month d),
      CHR ''-'', digit_char (day d div 10), digit_char (day d)]"
  by (simp add: strftime_date_def decimal_four_digits[OF assms] fmt2_def)

lemma split_month_day:
  "split CHR ''-'' [digit_char a, digit_char b, CHR ''-'', digit_char c, digit_char e]
     = [[digit_char a, digit_char b], [digit_char c, digit_char e]]"
  by (simp add: digit_char_not_hyphen)

lemma day_value_fmt2: "day_value (fmt2 n) = number (fmt2 n)"
  by (simp add: day_value_def fmt2_def digit_char_not_space)

lemma strptime_strftime:
  fixes d :: date
  assumes "date_ok d" and "1000 \<le> year d"
  shows "strptime_date (strftime_date d) = Some d"
proof -
  have y: "year d \<le> 9999" and m: "month d \<le> 99" and dd: "day d \<le> 99"
    and m12: "1 \<le> month d" "month d \<le> 12" and d31: "1 \<le> day d" "day d \<le> 31"
    using assms(1) days_in_month_le[of "year d" "month d"] by (auto simp: date_ok_def)
  note chars = strftime_date_chars[OF assms(2) y]
  have len: "5 \<le> length (strftime_date d)" by (simp add: chars)
  have t4: "take 4 (strftime_date d) = [digit_char (year d div 1000), digit_char (year d div 100),
      digit_char (year d div 10), digit_char (year d)]"
    by (simp add: chars)
  have n4: "strftime_date d ! 4 = CHR ''-''" by (simp add: chars)
  have d5: "drop 5 (strftime_date d) = [digit_char (month d div 10), digit_char (month d),
      CHR ''-'', digit_char (day d div 10), digit_char (day d)]"
    by (simp add: chars)
  have sp: "split CHR ''-'' (drop 5 (strftime_date d)) = [fmt2 (month d), fmt2 (day d)]"
    unfolding d5 by (simp only: split_month_day fmt2_def)
  have digy: "list_all is_digit (take 4 (strftime_date d))"
    unfolding t4 by (simp add: is_digit_char)
  have mf: "month_field (fmt2 (month d))"
    using m12 by (simp add: month_field_def number_fmt2[OF m]) (simp add: fmt2_def is_digit_char)
  have df: "day_field (fmt2 (day d))"
    using d31 by (simp add: day_field_def number_fmt2[OF dd]) (simp add: fmt2_def is_digit_char)
  have rec: "\<lparr>year = year d, month = month d, day = day d\<rparr> = d" by simp
  show ?thesis
    using assms(1)
    by (simp add: strptime_date_def len digy n4 sp mf df day_value_fmt2 rec Let_def
        number_fmt2[OF m] number_fmt2[OF dd])
       (simp add: t4 number_four_digits[OF y] rec)
qed

section \<open>The representation of a project\<close>

lemma Project_to_dict_keys:
  "map fst (Project_to_dict p) =
     [''id'', ''title'', ''description'', ''tech_stack'', ''date_created'', ''github_url'',
      ''demo_url'', ''image_url'', ''featured'', ''created_at'']"
  by (simp add: Project_to_dict_def)

lemma project_data_keys:
  "map fst (project_data p) =
     [''id'', ''title'', ''description'', ''tech_stack'', ''date_created'', ''github_url'',
      ''demo_url'', ''featured'']"
  by (simp add: project_data_def)

lemma projects_loop_map: "projects_loop ps acc = acc @ map (\<lambda>p. JObj (project_data p)) ps"
  by (induction ps arbitrary: acc) simp_all

lemma get_projects_ok:
  "get_projects NoFault st =
     (JObj [(''status'', JStr ''success''),
            (''data'', JObj [(''projects'', JList (map (\<lambda>p. JObj (project_data p)) (projects st)))]),
            (''message'', JStr ''Projects retrieved successfully'')], 200)"
  by (simp add: get_projects_def Project_query_all_def projects_loop_map)

lemma strftime_test_time: "strftime_datetime test_time = ''2025-08-15 10:30:00''"
  by (simp add: strftime_datetime_def strftime_date_def decimal_2025 fmt2_def digit_char_def
      test_time_def)

text \<open>
  C1. The claim is that every project in the answer of \<^verbatim>\<open>GET /api/projects\<close> has the ten
  fields of \<^verbatim>\<open>Project.to_dict\<close>. On the seeded project the handler answers with eight
  fields: \<^verbatim>\<open>image_url\<close> and \<^verbatim>\<open>created_at\<close>, which \<^verbatim>\<open>to_dict\<close> gives for the same row, are
  missing.
\<close>

theorem C1_get_projects_omits_image_url_and_created_at:
  "get_projects NoFault seed_store =
     (JObj [(''status'', JStr ''success''),
            (''data'', JObj [(''projects'', JList [JObj
               [(''id'', JInt 1),
                (''title'', JStr ''Fake News Detection Web App''),
                (''description'', JStr ''A machine learning-powered web application''),
                (''tech_stack'', JList [JStr ''Flask'', JStr ''Python'', JStr ''Scikit-learn'',
                   JStr ''MongoDB'', JStr ''HTML'', JStr ''CSS'', JStr ''JavaScript'']),
                (''date_created'', JStr ''2025-08-15''),
                (''github_url'', JStr ''https://github.com/jaiyan-th/fake-news-detector''),
                (''demo_url'', JNull),
                (''featured'', JBool True)]])]),
            (''message'', JStr ''Projects retrieved successfully'')], 200)
   \<and> map_of (project_data seed_project) ''image_url'' = None
   \<and> map_of (project_data seed_project) ''created_at'' = None
   \<and> map_of (Project_to_dict seed_project) ''image_url''
       = Some (JStr ''/static/images/fake-news-project.jpg'')
   \<and> map_of (Project_to_dict seed_project) ''created_at''
       = Some (JStr ''2025-08-15 10:30:00'')"
proof -
  have a: "project_data seed_project =
      [(''id'', JInt 1),
       (''title'', JStr ''Fake News Detection Web App''),
       (''description'', JStr ''A machine learning-powered web application''),
       (''tech_stack'', JList [JStr ''Flask'', JStr ''Python'', JStr ''Scikit-learn'',
          JStr ''MongoDB'', JStr ''HTML'', JStr ''CSS'', JStr ''JavaScript'']),
       (''date_created'', JStr ''2025-08-15''),
       (''github_url'', JStr ''https://github.com/jaiyan-th/fake-news-detector''),
       (''demo_url'', JNull),
       (''featured'', JBool True)]"
    by (simp add: project_data_def seed_project_def opt_int_def opt_str_def opt_bool_def
        tech_stack_list_def date_text_def strftime_date_def decimal_2025 fmt2_def
        digit_char_def)
  have b: "get_projects NoFault seed_store =
     (JObj [(''status'', JStr ''success''),
            (''data'', JObj [(''projects'', JList [JObj (project_data seed_project)])]),
            (''message'', JStr ''Projects retrieved successfully'')], 200)"
    by (simp add: get_projects_ok seed_store_def)
  have c: "map_of (project_data seed_project) ''image_url'' = None"
    "map_of (project_data seed_project) ''created_at'' = None"
    by (simp_all add: project_data_def)
  have d: "map_of (Project_to_dict seed_project) ''image_url''
       = Some (JStr ''/static/images/fake-news-project.jpg'')"
    by (simp add: Project_to_dict_def seed_project_def opt_str_def)
  have e: "map_of (Project_to_dict seed_project) ''created_at''
       = Some (JStr ''2025-08-15 10:30:00'')"
    by (simp add: Project_to_dict_def datetime_text_def strftime_test_time)
       (simp add: seed_project_def strftime_test_time)
  show ?thesis
    unfolding b a[symmetric] using c d e by simp
qed

lemma featured_true_project_data:
  "featured_true (JObj (project_data p)) = (project_featured p = Some True)"
  by (cases "project_featured p") (simp_all add: featured_true_def project_data_def opt_bool_def)

lemma filter_featured:
  "filter featured_true (map (\<lambda>p. JObj (project_data p)) ps)
     = map (\<lambda>p. JObj (project_data p)) (filter (\<lambda>p. project_featured p = Some True) ps)"
  by (induction ps) (simp_all add: featured_true_project_data)

text \<open>
  C6. Whatever the store holds, the projects in the answer of \<^verbatim>\<open>get_featured_projects\<close>
  are the projects in the answer of \<^verbatim>\<open>get_projects\<close> whose \<^verbatim>\<open>featured\<close> field is true, in
  the same relative order. When the query raises, neither answer has a list.
\<close>

theorem C6_featured_is_filtered_list:
  "response_projects (get_featured_projects f st)
     = map_option (filter featured_true) (response_projects (get_projects f st))"
  by (simp add: response_projects_def get_featured_projects_def get_projects_def
      Project_query_filter_by_featured_def Project_query_all_def projects_loop_map
      filter_featured)

theorem C6_featured_witness:
  "response_projects (get_projects NoFault test_store)
     = Some [JObj (project_data project1), JObj (project_data project2)]
   \<and> featured_true (JObj (project_data project1))
   \<and> \<not> featured_true (JObj (project_data project2))
   \<and> response_projects (get_featured_projects NoFault test_store)
     = Some [JObj (project_data project1)]"
proof -
  have a: "response_projects (get_projects NoFault test_store)
     = Some [JObj (project_data project1), JObj (project_data project2)]"
    by (simp add: get_projects_ok response_projects_def test_store_def)
  have b: "featured_true (JObj (project_data project1))"
    "\<not> featured_true (JObj (project_data project2))"
    by (simp_all add: featured_true_project_data project1_def project2_def)
  from C6_featured_is_filtered_list[of NoFault test_store] a b
  show ?thesis by simp
qed

text \<open>
  C8. A project whose stored technology field is the empty string is serialized with
  the empty list under \<^verbatim>\<open>tech_stack\<close>, by \<^verbatim>\<open>Project.to_dict\<close> and by the handlers alike,
  and not with the list of one empty string that \<^verbatim>\<open>split\<close> alone would give.
\<close>

theorem C8_empty_tech_stack_is_empty_list:
  assumes "project_tech_stack p = Some []"
  shows "map_of (Project_to_dict p) ''tech_stack'' = Some (JList [])
       \<and> map_of (project_data p) ''tech_stack'' = Some (JList [])
       \<and> map_of (Project_to_dict p) ''tech_stack'' \<noteq> Some (JList [JStr []])
       \<and> map_of (project_data p) ''tech_stack'' \<noteq> Some (JList [JStr []])"
  using assms by (simp add: Project_to_dict_def project_data_def tech_stack_list_def)

theorem C8_empty_tech_stack_witness:
  "project_tech_stack empty_stack_project = Some []
   \<and> map_of (Project_to_dict empty_stack_project) ''tech_stack'' = Some (JList [])
   \<and> map_of (project_data empty_stack_project) ''tech_stack'' = Some (JList [])
   \<and> map_of (Project_to_dict empty_stack_project) ''tech_stack'' \<noteq> Some (JList [JStr []])
   \<and> map_of (project_data empty_stack_project) ''tech_stack'' \<noteq> Some (JList [JStr []])"
proof -
  have h: "project_tech_stack empty_stack_project = Some []"
    by (simp add: empty_stack_project_def)
  show ?thesis
    using h C8_empty_tech_stack_is_empty_list[OF h] by simp
qed

text \<open>
  C9. The claim is that, for every stored project, the serialized technology list and
  creation date read back as the stored values. For a project created in the year 999
  the date is written \<^verbatim>\<open>999-01-01\<close>, which \<^verbatim>\<open>strptime\<close> with the same format refuses: the
  year has three digits.
\<close>

theorem C9_early_year_counterexample:
  "project_date_created early_project = Some \<lparr>year = 999, month = 1, day = 1\<rparr>
   \<and> date_ok \<lparr>year = 999, month = 1, day = 1\<rparr>
   \<and> map_of (Project_to_dict early_project) ''date_created'' = Some (JStr ''999-01-01'')
   \<and> map_of (project_data early_project) ''date_created'' = Some (JStr ''999-01-01'')
   \<and> Option.bind (map_of (Project_to_dict early_project) ''date_created'') parse_date_created
       = None
   \<and> Option.bind (map_of (Project_to_dict early_project) ''date_created'') parse_date_created
       \<noteq> project_date_created early_project"
proof -
  have h: "project_date_created early_project = Some \<lparr>year = 999, month = 1, day = 1\<rparr>"
    by (simp add: early_project_def)
  have ok: "date_ok \<lparr>year = 999, month = 1, day = 1\<rparr>"
    by (simp add: date_ok_def days_in_month_def)
  have t: "strftime_date \<lparr>year = 999, month = 1, day = 1\<rparr> = ''999-01-01''"
    by (simp add: strftime_date_def decimal_999 fmt2_01 del: One_nat_def)
  have a: "map_of (Project_to_dict early_project) ''date_created'' = Some (JStr ''999-01-01'')"
    by (simp add: Project_to_dict_def date_text_def h t del: One_nat_def)
  have b: "map_of (project_data early_project) ''date_created'' = Some (JStr ''999-01-01'')"
    by (simp add: project_data_def date_text_def h t del: One_nat_def)
  have r: "strptime_date ''999-01-01'' = None"
    by (simp add: strptime_date_def is_digit_def)
  from h ok a b r show ?thesis
    by (simp add: parse_date_created_def)
qed

text \<open>
  C9, as the code has it. For a stored project, whose technology field and creation date
  are not null and whose date is a calendar date, joining the serialized \<^verbatim>\<open>tech_stack\<close> on
  the comma gives the stored technology field back; and when the year of the creation
  date has four digits, reading the serialized \<^verbatim>\<open>date_created\<close> gives the stored date
  back. This holds for \<^verbatim>\<open>Project.to_dict\<close> and for the handlers' dictionary.
\<close>

theorem C9_tech_stack_and_date_round_trip:
  assumes "project_tech_stack p = Some s"
    and "project_date_created p = Some d"
    and "date_ok d"
  shows "Option.bind (map_of (Project_to_dict p) ''tech_stack'') parse_tech_stack = Some s
       \<and> Option.bind (map_of (project_data p) ''tech_stack'') parse_tech_stack = Some s
       \<and> (1000 \<le> year d \<longrightarrow>
            Option.bind (map_of (Project_to_dict p) ''date_created'') parse_date_created = Some d
          \<and> Option.bind (map_of (project_data p) ''date_created'') parse_date_created = Some d)"
  using assms
  by (simp add: Project_to_dict_def project_data_def parse_tech_stack_list
      date_text_def parse_date_created_def strptime_strftime)

theorem C9_round_trip_witness:
  "project_tech_stack project1 = Some ''Python,Flask''
   \<and> project_date_created project1 = Some \<lparr>year = 2025, month = 1, day = 1\<rparr>
   \<and> date_ok \<lparr>year = 2025, month = 1, day = 1\<rparr>
   \<and> (1000::nat) \<le> year \<lparr>year = 2025, month = 1, day = 1\<rparr>
   \<and> map_of (Project_to_dict project1) ''tech_stack'' = Some (JList [JStr ''Python'', JStr ''Flask''])
   \<and> map_of (Project_to_dict project1) ''date_created'' = Some (JStr ''2025-01-01'')
   \<and> Option.bind (map_of (Project_to_dict project1) ''tech_stack'') parse_tech_stack
       = Some ''Python,Flask''
   \<and> Option.bind (map_of (Project_to_dict project1) ''date_created'') parse_date_created
       = Some \<lparr>year = 2025, month = 1, day = 1\<rparr>"
proof -
  have h1: "project_tech_stack project1 = Some ''Python,Flask''"
    by (simp add: project1_def)
  have h2: "project_date_created project1 = Some \<lparr>year = 2025, month = 1, day = 1\<rparr>"
    by (simp add: project1_def)
  have h3: "date_ok \<lparr>year = 2025, month = 1, day = 1\<rparr>"
    by (simp add: date_ok_def days_in_month_def)
  have v1: "map_of (Project_to_dict project1) ''tech_stack''
      = Some (JList [JStr ''Python'', JStr ''Flask''])"
    by (simp add: Project_to_dict_def tech_stack_list_def h1)
  have v2: "map_of (Project_to_dict project1) ''date_created'' = Some (JStr ''2025-01-01'')"
    by (simp add: Project_to_dict_def date_text_def h2 strftime_date_def decimal_2025 fmt2_def
        digit_char_def)
  from C9_tech_stack_and_date_round_trip[OF h1 h2 h3] h1 h2 h3 v1 v2
  show ?thesis by simp
qed

section \<open>The groups of skills\<close>

lemma remdups_snoc: "remdups (ys @ [x]) = filter (\<lambda>y. y \<noteq> x) (remdups ys) @ [x]"
  by (induction ys) auto

lemma first_seen_Cons:
  "rev (remdups (rev (x # xs))) = x # filter (\<lambda>y. y \<noteq> x) (rev (remdups (rev xs)))"
  by (simp add: remdups_snoc rev_filter)

lemma keys_dict_append: "map fst (dict_append k v d) = map fst d"
  by (induction d) auto

lemma dict_append_absent: "k \<notin> fst ` set d \<Longrightarrow> dict_append k v (d @ [(k, vs)]) = d @ [(k, vs @ [v])]"
  by (induction d) auto

lemma dict_append_present:
  "distinct (map fst d) \<Longrightarrow> 
   dict_append k v d = map (\<lambda>(c, vs). (c, if c = k then vs @ [v] else vs)) d"
proof (induction d)
  case Nil
  show ?case by simp
next
  case (Cons a d)
  obtain c vs where a: "a = (c, vs)" by (cases a)
  show ?case
  proof (cases "c = k")
    case True
    then have "k \<notin> fst ` set d" using Cons.prems a by auto
    then have "map (\<lambda>(c, vs). (c, if c = k then vs @ [v] else vs)) d = d"
      by (induction d) auto
    with True a show ?thesis by simp
  next
    case False
    with Cons a show ?thesis by simp
  qed
qed


lemma filter_seen_present:
  "k \<in> K \<Longrightarrow> filter (\<lambda>c. c \<notin> K) (k # filter (\<lambda>y. y \<noteq> k) ys) = filter (\<lambda>c. c \<notin> K) ys"
  by (induction ys) auto

lemma filter_seen_absent:
  "k \<notin> K \<Longrightarrow> filter (\<lambda>c. c \<notin> K) (k # filter (\<lambda>y. y \<noteq> k) ys)
     = k # filter (\<lambda>c. c \<notin> insert k K) ys"
  by (induction ys) auto

lemma group_of_Cons:
  "group_of (s # ss) c = (if skill_category s = c then JObj (skill_data s) # group_of ss c else group_of ss c)"
  by (simp add: group_of_def)

lemma skills_step_present:
  assumes "distinct (map fst d)" "skill_category s \<in> fst ` set d"
  shows "skills_step s d =
     map (\<lambda>(c, vs). (c, if c = skill_category s then vs @ [JObj (skill_data s)] else vs)) d"
  using assms by (simp add: skills_step_def dict_append_present)

lemma skills_step_absent:
  assumes "skill_category s \<notin> fst ` set d"
  shows "skills_step s d = d @ [(skill_category s, [JObj (skill_data s)])]"
  using assms dict_append_absent[of "skill_category s" d "JObj (skill_data s)" "[]"]
  by (simp add: skills_step_def)

lemma skills_step_distinct:
  "distinct (map fst d) \<Longrightarrow> distinct (map fst (skills_step s d))"
  by (auto simp: skills_step_def keys_dict_append Let_def)

lemma skills_loop_general:
  "distinct (map fst d) \<Longrightarrow>
   skills_loop ss d =
     map (\<lambda>(c, vs). (c, vs @ group_of ss c)) d
     @ map (\<lambda>c. (c, group_of ss c))
         (filter (\<lambda>c. c \<notin> fst ` set d) (rev (remdups (rev (map skill_category ss)))))"
proof (induction ss arbitrary: d)
  case Nil
  show ?case by (simp add: group_of_def case_prod_unfold)
next
  case (Cons s ss)
  let ?k = "skill_category s"
  let ?fs = "rev (remdups (rev (map skill_category ss)))"
  have dis: "distinct (map fst (skills_step s d))"
    using Cons.prems by (rule skills_step_distinct)
  note IH = Cons.IH[OF dis]
  show ?case
  proof (cases "?k \<in> fst ` set d")
    case True
    have "map fst (skills_step s d) = map fst d"
      using True by (simp add: skills_step_def keys_dict_append)
    then have "set (map fst (skills_step s d)) = set (map fst d)" by simp
    then have keys: "fst ` set (skills_step s d) = fst ` set d"
      by (simp only: set_map)
    have part1: "map (\<lambda>(c, vs). (c, vs @ group_of ss c)) (skills_step s d)
        = map (\<lambda>(c, vs). (c, vs @ group_of (s # ss) c)) d"
      using True Cons.prems by (auto simp: skills_step_present group_of_Cons)
    have part2: "map (\<lambda>c. (c, group_of ss c)) (filter (\<lambda>c. c \<notin> fst ` set d) ?fs)
        = map (\<lambda>c. (c, group_of (s # ss) c))
            (filter (\<lambda>c. c \<notin> fst ` set d) (rev (remdups (rev (map skill_category (s # ss))))))"
    proof -
      have "filter (\<lambda>c. c \<notin> fst ` set d) (rev (remdups (rev (map skill_category (s # ss)))))
          = filter (\<lambda>c. c \<notin> fst ` set d) ?fs"
        using True by (simp only: list.map first_seen_Cons filter_seen_present)
      moreover have "map (\<lambda>c. (c, group_of ss c)) (filter (\<lambda>c. c \<notin> fst ` set d) ?fs)
          = map (\<lambda>c. (c, group_of (s # ss) c)) (filter (\<lambda>c. c \<notin> fst ` set d) ?fs)"
        using True by (auto simp: group_of_Cons)
      ultimately show ?thesis by simp
    qed
    show ?thesis
      by (simp only: skills_loop.simps IH keys part1 part2)
  next
    case False
    have step: "skills_step s d = d @ [(?k, [JObj (skill_data s)])]"
      using False by (rule skills_step_absent)
    have part1: "map (\<lambda>(c, vs). (c, vs @ group_of ss c)) d
        = map (\<lambda>(c, vs). (c, vs @ group_of (s # ss) c)) d"
      using False by (force simp: group_of_Cons)
    have fs: "filter (\<lambda>c. c \<notin> fst ` set d) (rev (remdups (rev (map skill_category (s # ss)))))
        = ?k # filter (\<lambda>c. c \<notin> fst ` set (skills_step s d)) ?fs"
      using False by (simp only: list.map first_seen_Cons filter_seen_absent) (simp add: step)
    have part2: "map (\<lambda>c. (c, group_of ss c)) (filter (\<lambda>c. c \<notin> fst ` set (skills_step s d)) ?fs)
        = map (\<lambda>c. (c, group_of (s # ss) c)) (filter (\<lambda>c. c \<notin> fst ` set (skills_step s d)) ?fs)"
      by (auto simp: group_of_Cons step)
    show ?thesis
      unfolding skills_loop.simps IH fs part2
      by (simp add: step part1 group_of_Cons)
  qed
qed

lemma skills_loop_groups:
  "skills_loop ss [] =
     map (\<lambda>c. (c, group_of ss c)) (rev (remdups (rev (map skill_category ss))))"
  using skills_loop_general[of "[]" ss] by simp


lemma first_seen_distinct: "distinct (rev (remdups (rev xs)))"
  by simp

lemma first_seen_set: "set (rev (remdups (rev xs))) = set xs"
  by simp

lemma mset_filter_split:
  "k \<notin> K \<Longrightarrow>
   mset (map f (filter (\<lambda>s. g s = k) ss)) + mset (map f (filter (\<lambda>s. g s \<in> K) ss))
     = mset (map f (filter (\<lambda>s. g s \<in> insert k K) ss))"
  by (induction ss) auto

lemma mset_groups:
  "distinct ks \<Longrightarrow>
   mset (concat (map (group_of ss) ks))
     = mset (map (\<lambda>s. JObj (skill_data s)) (filter (\<lambda>s. skill_category s \<in> set ks) ss))"
proof (induction ks)
  case Nil
  show ?case by simp
next
  case (Cons k ks)
  then have "k \<notin> set ks" and "distinct ks" by simp_all
  with Cons.IH mset_filter_split[of k "set ks" "\<lambda>s. JObj (skill_data s)" skill_category ss]
  show ?case by (simp add: group_of_def)
qed

lemma mset_all_groups:
  "mset (concat (map snd (skills_loop ss [])))
     = mset (map (\<lambda>s. JObj (skill_data s)) ss)"
proof -
  let ?ks = "rev (remdups (rev (map skill_category ss)))"
  have "map snd (skills_loop ss []) = map (group_of ss) ?ks"
    by (simp add: skills_loop_groups comp_def)
  moreover have "filter (\<lambda>s. skill_category s \<in> set ?ks) ss = ss"
    by (simp add: filter_id_conv)
  ultimately show ?thesis
    using mset_groups[of ?ks ss] first_seen_distinct[of "map skill_category ss"] by simp
qed

lemma get_skills_ok:
  "get_skills NoFault st =
     (JObj [(''status'', JStr ''success''),
            (''data'', JObj [(''skills'',
               JObj (map (\<lambda>(c, g). (c, JList g)) (skills_loop (skills st) [])))]),
            (''message'', JStr ''Skills retrieved successfully'')], 200)"
  by (simp add: get_skills_def Skill_query_all_def)

lemma skills_loop_append:
  "skills_loop (xs @ ys) d = skills_loop ys (skills_loop xs d)"
  by (induction xs arbitrary: d) simp_all

text \<open>
  C7. The dictionary that \<^verbatim>\<open>get_skills\<close> builds has one key for each category that
  occurs, in the order in which the categories are first seen in the table. The group
  of a key is the list of the representations of exactly the skills of that category,
  in table order; so the key of a skill's group is its category and no other group
  holds it. All groups together hold the representations of all skills, each as often
  as it occurs in the table. A group exists only once a skill of its category has been
  reached: the statement holds for every table, so for every prefix of one, and the loop
  over a table continues the loop over its prefix (\<open>skills_loop_append\<close>). The handler
  answers with this dictionary.
\<close>

theorem C7_skills_grouped_by_category:
  "skills_loop (skills st) []
     = map (\<lambda>c. (c, map (\<lambda>s. JObj (skill_data s)) (filter (\<lambda>s. skill_category s = c) (skills st))))
         (rev (remdups (rev (map skill_category (skills st)))))
   \<and> distinct (map fst (skills_loop (skills st) []))
   \<and> set (map fst (skills_loop (skills st) [])) = set (map skill_category (skills st))
   \<and> mset (concat (map snd (skills_loop (skills st) [])))
       = mset (map (\<lambda>s. JObj (skill_data s)) (skills st))
   \<and> get_skills NoFault st =
       (JObj [(''status'', JStr ''success''),
              (''data'', JObj [(''skills'',
                 JObj (map (\<lambda>(c, g). (c, JList g)) (skills_loop (skills st) [])))]),
              (''message'', JStr ''Skills retrieved successfully'')], 200)"
proof -
  have a: "skills_loop (skills st) []
     = map (\<lambda>c. (c, map (\<lambda>s. JObj (skill_data s)) (filter (\<lambda>s. skill_category s = c) (skills st))))
         (rev (remdups (rev (map skill_category (skills st)))))"
    using skills_loop_groups[of "skills st"] by (simp add: group_of_def)
  have k: "map fst (skills_loop (skills st) []) = rev (remdups (rev (map skill_category (skills st))))"
    by (simp add: skills_loop_groups comp_def)
  have b: "distinct (map fst (skills_loop (skills st) []))"
    unfolding k by simp
  have c: "set (map fst (skills_loop (skills st) [])) = set (map skill_category (skills st))"
    unfolding k by simp
  from a b c mset_all_groups[of "skills st"] get_skills_ok[of st]
  show ?thesis by blast
qed

theorem C7_skills_grouped_witness:
  "skills_loop (skills three_skills_store) []
     = [(''programming'', [JObj (skill_data skill1), JObj (skill_data skill3)]),
        (''tools'', [JObj (skill_data skill2)])]"
proof -
  have c: "skill_category skill1 = ''programming''" "skill_category skill2 = ''tools''"
    "skill_category skill3 = ''programming''"
    by (simp_all add: skill1_def skill2_def skill3_def)
  have s: "skills three_skills_store = [skill1, skill2, skill3]"
    by (simp add: three_skills_store_def)
  from C7_skills_grouped_by_category[of three_skills_store]
  show ?thesis unfolding s by (simp add: c)
qed







section \<open>Contact submissions\<close>

lemma required_missing_obj:
  "required_missing (JObj kvs) =
     Inr (\<not> (kvs \<noteq> [] \<and> truthy (case map_of kvs ''name'' of None \<Rightarrow> JNull | Some v \<Rightarrow> v)
          \<and> truthy (case map_of kvs ''email'' of None \<Rightarrow> JNull | Some v \<Rightarrow> v)
          \<and> truthy (case map_of kvs ''message'' of None \<Rightarrow> JNull | Some v \<Rightarrow> v)))"
  by (simp add: required_missing_def and_then_def)

lemma required_missing_falsy: "\<not> truthy data \<Longrightarrow> required_missing data = Inr True"
  by (simp add: required_missing_def)

lemma required_missing_not_dict:
  "truthy data \<Longrightarrow> \<forall>kvs. data \<noteq> JObj kvs \<Longrightarrow> required_missing data = Inl AttributeError"
  by (cases data) (simp_all add: required_missing_def and_then_def)

lemma validation_passes:
  assumes "map_of kvs ''name'' = Some n" "truthy n"
    and "map_of kvs ''email'' = Some e" "truthy e"
    and "map_of kvs ''message'' = Some m" "truthy m"
  shows "required_missing (JObj kvs) = Inr False"
proof -
  have "kvs \<noteq> []" using assms(1) by auto
  then show ?thesis using assms by (simp add: required_missing_obj)
qed

lemma new_contact_message_obj:
  assumes "map_of kvs ''name'' = Some n"
    and "map_of kvs ''email'' = Some e"
    and "map_of kvs ''message'' = Some m"
  shows "new_contact_message (JObj kvs) addr =
     Inr \<lparr>contact_id = None, contact_name = n, contact_email = e,
          contact_subject = (case map_of kvs ''subject'' of None \<Rightarrow> JStr [] | Some v \<Rightarrow> v),
          contact_message = m, contact_ip_address = addr,
          contact_created_at = None, contact_read_status = None\<rparr>"
  using assms by (simp add: new_contact_message_def and_then_def)

lemma commit_clean_ok:
  assumes "session_new st = []" "session_flushed st = []"
  shows "session_commit NoFault now (session_add c st) =
     (Inr (), st\<lparr>contact_messages := contact_messages st
                    @ [insert_defaults now (next_id (contact_messages st)) c]\<rparr>)"
  using assms by (simp add: session_commit_def session_add_def Let_def)

lemma commit_clean_flush_fails:
  assumes "session_new st = []" "session_flushed st = []"
  shows "session_commit FlushFails now (session_add c st) =
     (Inl OperationalError, st\<lparr>session_new := [c]\<rparr>)"
  using assms by (simp add: session_commit_def session_add_def Let_def)

lemma commit_clean_commit_fails:
  assumes "session_new st = []" "session_flushed st = []"
  shows "session_commit CommitFails now (session_add c st) =
     (Inl OperationalError,
      st\<lparr>session_new := [],
         session_flushed := [insert_defaults now (next_id (contact_messages st)) c]\<rparr>)"
  using assms by (simp add: session_commit_def session_add_def Let_def)

lemma rollback_clean:
  assumes "session_new st = []" "session_flushed st = []"
  shows "session_rollback (st\<lparr>session_new := xs, session_flushed := ys\<rparr>) = st"
    and "session_rollback (st\<lparr>session_new := xs\<rparr>) = st"
    and "session_rollback st = st"
  using assms by (simp_all add: session_rollback_def)

lemma submit_ok:
  assumes "get_json req = Inr (JObj kvs)"
    and "map_of kvs ''name'' = Some n" "truthy n"
    and "map_of kvs ''email'' = Some e" "truthy e"
    and "map_of kvs ''message'' = Some m" "truthy m"
    and "session_new st = []" "session_flushed st = []"
  shows "submit_contact NoFault now req st =
     ((JObj [(''status'', JStr ''success''), (''message'', JStr ''Message sent successfully'')], 200),
      st\<lparr>contact_messages := contact_messages st @
         [\<lparr>contact_id = Some (next_id (contact_messages st)), contact_name = n, contact_email = e,
           contact_subject = (case map_of kvs ''subject'' of None \<Rightarrow> JStr [] | Some v \<Rightarrow> v),
           contact_message = m, contact_ip_address = remote_addr req,
           contact_created_at = Some now, contact_read_status = Some False\<rparr>]\<rparr>)"
proof -
  note v = validation_passes[OF assms(2-7)]
  note c = new_contact_message_obj[OF assms(2,4,6)]
  show ?thesis
    by (simp add: submit_contact_def submit_contact_try_def assms(1) v c
        commit_clean_ok[OF assms(8,9)] insert_defaults_def)
qed

lemma submit_fails:
  assumes "get_json req = Inr (JObj kvs)"
    and "map_of kvs ''name'' = Some n" "truthy n"
    and "map_of kvs ''email'' = Some e" "truthy e"
    and "map_of kvs ''message'' = Some m" "truthy m"
    and "session_new st = []" "session_flushed st = []"
    and "f = FlushFails \<or> f = CommitFails"
  shows "submit_contact f now req st =
     ((JObj [(''status'', JStr ''error''),
             (''error'', JObj [(''code'', JStr ''DATABASE_ERROR''),
                               (''message'', JStr ''Failed to send message'')])], 500), st)"
    and "fst (submit_contact_try f now req st) = Inl OperationalError"
    and "snd (submit_contact_try f now req st) \<noteq> st"
    and "session_rollback (snd (submit_contact_try f now req st)) = st"
proof -
  note g = assms(1)
  note v = validation_passes[OF assms(2-7)]
  note c = new_contact_message_obj[OF assms(2,4,6)]
  note r = rollback_clean(1,2)[OF assms(8,9)]
  note ff = commit_clean_flush_fails[OF assms(8,9)]
  note cf = commit_clean_commit_fails[OF assms(8,9)]
  from assms(10) show "submit_contact f now req st =
     ((JObj [(''status'', JStr ''error''),
             (''error'', JObj [(''code'', JStr ''DATABASE_ERROR''),
                               (''message'', JStr ''Failed to send message'')])], 500), st)"
    by (auto simp: submit_contact_def submit_contact_try_def g v c r ff cf)
  from assms(10) show "fst (submit_contact_try f now req st) = Inl OperationalError"
    by (auto simp: submit_contact_try_def g v c ff cf)
  have ne1: "st\<lparr>session_new := [x]\<rparr> \<noteq> st" for x
  proof
    assume "st\<lparr>session_new := [x]\<rparr> = st"
    then have "session_new (st\<lparr>session_new := [x]\<rparr>) = session_new st" by simp
    with assms(8) show False by simp
  qed
  have ne2: "st\<lparr>session_new := [], session_flushed := [x]\<rparr> \<noteq> st" for x
  proof
    assume "st\<lparr>session_new := [], session_flushed := [x]\<rparr> = st"
    then have "session_flushed (st\<lparr>session_new := [], session_flushed := [x]\<rparr>)
        = session_flushed st" by simp
    with assms(9) show False by simp
  qed
  from assms(10) show "snd (submit_contact_try f now req st) \<noteq> st"
    by (auto simp: submit_contact_try_def g v c ne1 ne2 ff cf)
  from assms(10) show "session_rollback (snd (submit_contact_try f now req st)) = st"
    by (auto simp: submit_contact_try_def g v c r ff cf)
qed

text \<open>
  What the required-field check does on each kind of body. A dictionary in which
  \<^verbatim>\<open>name\<close>, \<^verbatim>\<open>email\<close> or \<^verbatim>\<open>message\<close> is absent, null or the empty string is refused with
  status 400 and the code \<^verbatim>\<open>VALIDATION_ERROR\<close>, and so is a body that is false (\<^verbatim>\<open>null\<close>,
  an empty list, zero); the store is not touched. A body that is true and is not a
  dictionary has no method \<^verbatim>\<open>get\<close>, and a body that cannot be parsed makes \<^verbatim>\<open>get_json\<close>
  raise: both exceptions reach \<^verbatim>\<open>except Exception\<close>, which rolls back and answers with
  status 500 and the code \<^verbatim>\<open>DATABASE_ERROR\<close>.
\<close>

lemma submit_contact_missing_field:
  assumes "get_json req = Inr (JObj kvs)"
    and "map_of kvs ''name'' \<in> {None, Some JNull, Some (JStr [])}
       \<or> map_of kvs ''email'' \<in> {None, Some JNull, Some (JStr [])}
       \<or> map_of kvs ''message'' \<in> {None, Some JNull, Some (JStr [])}"
  shows "submit_contact f now req st =
     ((JObj [(''status'', JStr ''error''),
             (''error'', JObj [(''code'', JStr ''VALIDATION_ERROR''),
                (''message'', JStr ''Name, email, and message are required fields'')])], 400),
      st)"
proof -
  have "required_missing (JObj kvs) = Inr True"
    using assms(2) by (auto simp: required_missing_obj)
  then show ?thesis
    by (simp add: submit_contact_def submit_contact_try_def assms(1))
qed

lemma submit_contact_falsy_body:
  assumes "get_json req = Inr data" and "\<not> truthy data"
  shows "submit_contact f now req st =
     ((JObj [(''status'', JStr ''error''),
             (''error'', JObj [(''code'', JStr ''VALIDATION_ERROR''),
                (''message'', JStr ''Name, email, and message are required fields'')])], 400),
      st)"
  using required_missing_falsy[OF assms(2)]
  by (simp add: submit_contact_def submit_contact_try_def assms(1))

lemma submit_contact_not_dict:
  assumes "get_json req = Inr data" and "truthy data" and "\<forall>kvs. data \<noteq> JObj kvs"
  shows "submit_contact f now req st =
     ((JObj [(''status'', JStr ''error''),
             (''error'', JObj [(''code'', JStr ''DATABASE_ERROR''),
                               (''message'', JStr ''Failed to send message'')])], 500),
      session_rollback st)"
    and "submit_contact_try f now req st = (Inl AttributeError, st)"
  using required_missing_not_dict[OF assms(2,3)]
  by (simp_all add: submit_contact_def submit_contact_try_def assms(1))

lemma submit_contact_unparsed:
  assumes "get_json req = Inl e"
  shows "submit_contact f now req st =
     ((JObj [(''status'', JStr ''error''),
             (''error'', JObj [(''code'', JStr ''DATABASE_ERROR''),
                               (''message'', JStr ''Failed to send message'')])], 500),
      session_rollback st)"
    and "submit_contact_try f now req st = (Inl e, st)"
  by (simp_all add: submit_contact_def submit_contact_try_def assms)

lemma submit_contact_unnamed:
  "submit_contact NoFault test_time unnamed_request test_store =
       ((JObj [(''status'', JStr ''error''),
               (''error'', JObj [(''code'', JStr ''VALIDATION_ERROR''),
                  (''message'', JStr ''Name, email, and message are required fields'')])], 400),
        test_store)"
  by (rule submit_contact_missing_field[where kvs = "[(''name'', JStr []),
        (''email'', JStr ''a@b.com''), (''message'', JStr ''hi'')]"])
     (simp_all add: unnamed_request_def)

text \<open>
  C3. The claim is that every input in which \<^verbatim>\<open>name\<close>, \<^verbatim>\<open>email\<close> or \<^verbatim>\<open>message\<close> is absent
  gets status 400 and the code \<^verbatim>\<open>VALIDATION_ERROR\<close>. The body \<^verbatim>\<open>[1]\<close> has none of the
  three fields. The check does not refuse it: \<^verbatim>\<open>data.get\<close> raises \<^verbatim>\<open>AttributeError\<close>, and
  the handler answers with status 500 and the code \<^verbatim>\<open>DATABASE_ERROR\<close>, although the
  database was never asked. A body that is not JSON text gets the same answer. The body
  \<^verbatim>\<open>null\<close>, which the first test of the check does catch, gets the validation error. In
  all three cases the store stays as it was.
\<close>

theorem C3_array_body_is_reported_as_database_error:
  "submit_contact_try NoFault test_time array_request test_store
     = (Inl AttributeError, test_store)
   \<and> submit_contact NoFault test_time array_request test_store =
       ((JObj [(''status'', JStr ''error''),
               (''error'', JObj [(''code'', JStr ''DATABASE_ERROR''),
                                 (''message'', JStr ''Failed to send message'')])], 500),
        test_store)
   \<and> submit_contact NoFault test_time unparsable_request test_store =
       ((JObj [(''status'', JStr ''error''),
               (''error'', JObj [(''code'', JStr ''DATABASE_ERROR''),
                                 (''message'', JStr ''Failed to send message'')])], 500),
        test_store)
   \<and> submit_contact NoFault test_time null_request test_store =
       ((JObj [(''status'', JStr ''error''),
               (''error'', JObj [(''code'', JStr ''VALIDATION_ERROR''),
                  (''message'', JStr ''Name, email, and message are required fields'')])], 400),
        test_store)"
proof -
  have clean: "session_rollback test_store = test_store"
    by (simp add: session_rollback_def test_store_def)
  have a: "get_json array_request = Inr (JList [JInt 1])" "truthy (JList [JInt 1])"
    "\<forall>kvs. JList [JInt 1] \<noteq> JObj kvs"
    by (simp_all add: array_request_def)
  have u: "get_json unparsable_request = Inl BadRequest"
    by (simp add: unparsable_request_def)
  have n: "get_json null_request = Inr JNull" "\<not> truthy JNull"
    by (simp_all add: null_request_def)
  show ?thesis
    using submit_contact_not_dict[OF a, of NoFault test_time test_store]
      submit_contact_unparsed(1)[OF u, of NoFault test_time test_store]
      submit_contact_falsy_body[OF n, of NoFault test_time test_store]
    by (simp add: clean)
qed

text \<open>
  C4. The request passes validation and the session is empty, as it is when a request
  starts. When the insert raises, while the session is flushed or when the transaction
  is committed, the body of the \<^verbatim>\<open>try\<close> statement leaves a write in flight: the store it
  raises with differs from the store before. The handler rolls that write back and only
  then answers, with status 500 and the error code \<^verbatim>\<open>DATABASE_ERROR\<close>; the store after
  the operation is the store before it.
\<close>

theorem C4_failed_insert_is_rolled_back:
  assumes "get_json req = Inr (JObj kvs)"
    and "map_of kvs ''name'' = Some n" and "truthy n"
    and "map_of kvs ''email'' = Some e" and "truthy e"
    and "map_of kvs ''message'' = Some m" and "truthy m"
    and "session_new st = []" and "session_flushed st = []"
    and "f = FlushFails \<or> f = CommitFails"
  shows "fst (submit_contact_try f now req st) = Inl OperationalError
       \<and> snd (submit_contact_try f now req st) \<noteq> st
       \<and> session_rollback (snd (submit_contact_try f now req st)) = st
       \<and> submit_contact f now req st =
           ((JObj [(''status'', JStr ''error''),
                   (''error'', JObj [(''code'', JStr ''DATABASE_ERROR''),
                                     (''message'', JStr ''Failed to send message'')])], 500), st)"
  using submit_fails[OF assms] by simp

theorem C4_failed_insert_witness:
  "get_json john_request = Inr (JObj [(''name'', JStr ''John Doe''),
       (''email'', JStr ''john@example.com''), (''message'', JStr ''Test message'')])
   \<and> session_new test_store = [] \<and> session_flushed test_store = []
   \<and> snd (submit_contact_try CommitFails test_time john_request test_store)
       = test_store\<lparr>session_flushed :=
           [\<lparr>contact_id = Some 1, contact_name = JStr ''John Doe'',
             contact_email = JStr ''john@example.com'', contact_subject = JStr [],
             contact_message = JStr ''Test message'', contact_ip_address = Some ''127.0.0.1'',
             contact_created_at = Some test_time, contact_read_status = Some False\<rparr>]\<rparr>
   \<and> submit_contact CommitFails test_time john_request test_store =
       ((JObj [(''status'', JStr ''error''),
               (''error'', JObj [(''code'', JStr ''DATABASE_ERROR''),
                                 (''message'', JStr ''Failed to send message'')])], 500),
        test_store)"
proof -
  let ?kvs = "[(''name'', JStr ''John Doe''), (''email'', JStr ''john@example.com''),
               (''message'', JStr ''Test message'')]"
  have h1: "get_json john_request = Inr (JObj ?kvs)" by (simp add: john_request_def)
  have h2: "map_of ?kvs ''name'' = Some (JStr ''John Doe'')" by simp
  have h3: "map_of ?kvs ''email'' = Some (JStr ''john@example.com'')" by simp
  have h4: "map_of ?kvs ''message'' = Some (JStr ''Test message'')" by simp
  have t: "truthy (JStr ''John Doe'')" "truthy (JStr ''john@example.com'')"
    "truthy (JStr ''Test message'')" by simp_all
  have s: "session_new test_store = []" "session_flushed test_store = []"
    by (simp_all add: test_store_def)
  have fl: "CommitFails = FlushFails \<or> CommitFails = CommitFails" by simp
  have mid: "snd (submit_contact_try CommitFails test_time john_request test_store)
       = test_store\<lparr>session_flushed :=
           [\<lparr>contact_id = Some 1, contact_name = JStr ''John Doe'',
             contact_email = JStr ''john@example.com'', contact_subject = JStr [],
             contact_message = JStr ''Test message'', contact_ip_address = Some ''127.0.0.1'',
             contact_created_at = Some test_time, contact_read_status = Some False\<rparr>]\<rparr>"
    by (simp add: submit_contact_try_def h1 validation_passes[OF h2 t(1) h3 t(2) h4 t(3)]
        new_contact_message_obj[OF h2 h3 h4] commit_clean_commit_fails[OF s]
        insert_defaults_def next_id_def)
       (simp add: test_store_def john_request_def)
  from C4_failed_insert_is_rolled_back[OF h1 h2 t(1) h3 t(2) h4 t(3) s fl, of test_time]
    h1 s mid
  show ?thesis by simp
qed

text \<open>
  C5. The body is a dictionary whose \<^verbatim>\<open>name\<close>, \<^verbatim>\<open>email\<close> and \<^verbatim>\<open>message\<close> are non-empty
  strings, the session is empty and the database does not fail. Then \<^verbatim>\<open>submit_contact\<close>
  answers with status 200 and a success envelope that has no \<^verbatim>\<open>data\<close> entry, and the
  store afterwards is the store before with one more row at the end of the contact
  messages: the three submitted fields, the submitted subject or the empty string when
  there is none, the address of the caller, and the key, time and read flag given on
  insertion.
\<close>

theorem C5_valid_submission_persists_one_message:
  assumes "get_json req = Inr (JObj kvs)"
    and "map_of kvs ''name'' = Some (JStr n)" and "n \<noteq> []"
    and "map_of kvs ''email'' = Some (JStr e)" and "e \<noteq> []"
    and "map_of kvs ''message'' = Some (JStr m)" and "m \<noteq> []"
    and "session_new st = []" and "session_flushed st = []"
  shows "submit_contact NoFault now req st =
     ((JObj [(''status'', JStr ''success''), (''message'', JStr ''Message sent successfully'')], 200),
      st\<lparr>contact_messages := contact_messages st @
         [\<lparr>contact_id = Some (next_id (contact_messages st)),
           contact_name = JStr n, contact_email = JStr e,
           contact_subject = (case map_of kvs ''subject'' of None \<Rightarrow> JStr [] | Some v \<Rightarrow> v),
           contact_message = JStr m, contact_ip_address = remote_addr req,
           contact_created_at = Some now, contact_read_status = Some False\<rparr>]\<rparr>)"
proof -
  have t: "truthy (JStr n)" "truthy (JStr e)" "truthy (JStr m)"
    using assms(3,5,7) by simp_all
  show ?thesis
    by (rule submit_ok[OF assms(1) assms(2) t(1) assms(4) t(2) assms(6) t(3) assms(8) assms(9)])
qed

theorem C5_valid_submission_witness:
  "get_json john_request = Inr (JObj [(''name'', JStr ''John Doe''),
       (''email'', JStr ''john@example.com''), (''message'', JStr ''Test message'')])
   \<and> session_new test_store = [] \<and> session_flushed test_store = []
   \<and> submit_contact NoFault test_time john_request test_store =
       ((JObj [(''status'', JStr ''success''), (''message'', JStr ''Message sent successfully'')],
         200),
        test_store\<lparr>contact_messages :=
           [\<lparr>contact_id = Some 1, contact_name = JStr ''John Doe'',
             contact_email = JStr ''john@example.com'', contact_subject = JStr [],
             contact_message = JStr ''Test message'', contact_ip_address = Some ''127.0.0.1'',
             contact_created_at = Some test_time, contact_read_status = Some False\<rparr>]\<rparr>)"
proof -
  let ?kvs = "[(''name'', JStr ''John Doe''), (''email'', JStr ''john@example.com''),
               (''message'', JStr ''Test message'')]"
  have h1: "get_json john_request = Inr (JObj ?kvs)" by (simp add: john_request_def)
  have h2: "map_of ?kvs ''name'' = Some (JStr ''John Doe'')" "''John Doe'' \<noteq> []" by simp_all
  have h3: "map_of ?kvs ''email'' = Some (JStr ''john@example.com'')" "''john@example.com'' \<noteq> []"
    by simp_all
  have h4: "map_of ?kvs ''message'' = Some (JStr ''Test message'')" "''Test message'' \<noteq> []"
    by simp_all
  have s: "session_new test_store = []" "session_flushed test_store = []"
    by (simp_all add: test_store_def)
  have c: "contact_messages test_store = []" by (simp add: test_store_def)
  have r: "remote_addr john_request = Some ''127.0.0.1''" by (simp add: john_request_def)
  from C5_valid_submission_persists_one_message[OF h1 h2 h3 h4 s, of test_time] h1 s
  show ?thesis by (simp add: c r next_id_def)
qed

text \<open>
  C10. The required fields are tested for truth only. When \<^verbatim>\<open>name\<close>, \<^verbatim>\<open>email\<close> and
  \<^verbatim>\<open>message\<close> are strings of one or more white space characters and nothing else, the
  check passes, and with an empty session and a database that does not fail the
  message is persisted with these fields as they came.
\<close>

theorem C10_whitespace_fields_are_accepted:
  assumes "get_json req = Inr (JObj kvs)"
    and "map_of kvs ''name'' = Some (JStr n)" and "n \<noteq> []" and "list_all is_space n"
    and "map_of kvs ''email'' = Some (JStr e)" and "e \<noteq> []" and "list_all is_space e"
    and "map_of kvs ''message'' = Some (JStr m)" and "m \<noteq> []" and "list_all is_space m"
    and "session_new st = []" and "session_flushed st = []"
  shows "and_then (get_json req) required_missing = Inr False
       \<and> submit_contact NoFault now req st =
     ((JObj [(''status'', JStr ''success''), (''message'', JStr ''Message sent successfully'')], 200),
      st\<lparr>contact_messages := contact_messages st @
         [\<lparr>contact_id = Some (next_id (contact_messages st)),
           contact_name = JStr n, contact_email = JStr e,
           contact_subject = (case map_of kvs ''subject'' of None \<Rightarrow> JStr [] | Some v \<Rightarrow> v),
           contact_message = JStr m, contact_ip_address = remote_addr req,
           contact_created_at = Some now, contact_read_status = Some False\<rparr>]\<rparr>)"
proof -
  have t: "truthy (JStr n)" "truthy (JStr e)" "truthy (JStr m)"
    using assms(3,6,9) by simp_all
  have "required_missing (JObj kvs) = Inr False"
    by (rule validation_passes[OF assms(2) t(1) assms(5) t(2) assms(8) t(3)])
  then have "and_then (get_json req) required_missing = Inr False"
    by (simp add: and_then_def assms(1))
  moreover have "submit_contact NoFault now req st =
     ((JObj [(''status'', JStr ''success''), (''message'', JStr ''Message sent successfully'')], 200),
      st\<lparr>contact_messages := contact_messages st @
         [\<lparr>contact_id = Some (next_id (contact_messages st)),
           contact_name = JStr n, contact_email = JStr e,
           contact_subject = (case map_of kvs ''subject'' of None \<Rightarrow> JStr [] | Some v \<Rightarrow> v),
           contact_message = JStr m, contact_ip_address = remote_addr req,
           contact_created_at = Some now, contact_read_status = Some False\<rparr>]\<rparr>)"
    by (rule submit_ok[OF assms(1) assms(2) t(1) assms(5) t(2) assms(8) t(3) assms(11) assms(12)])
  ultimately show ?thesis by simp
qed

theorem C10_whitespace_fields_witness:
  "get_json blank_request = Inr (JObj [(''name'', JStr '' ''), (''email'', JStr '' ''),
                                       (''message'', JStr '' '')])
   \<and> list_all is_space '' ''
   \<and> session_new test_store = [] \<and> session_flushed test_store = []
   \<and> and_then (get_json blank_request) required_missing = Inr False
   \<and> submit_contact NoFault test_time blank_request test_store =
       ((JObj [(''status'', JStr ''success''), (''message'', JStr ''Message sent successfully'')],
         200),
        test_store\<lparr>contact_messages :=
           [\<lparr>contact_id = Some 1, contact_name = JStr '' '', contact_email = JStr '' '',
             contact_subject = JStr [], contact_message = JStr '' '',
             contact_ip_address = Some ''127.0.0.1'',
             contact_created_at = Some test_time, contact_read_status = Some False\<rparr>]\<rparr>)"
proof -
  let ?kvs = "[(''name'', JStr '' ''), (''email'', JStr '' ''), (''message'', JStr '' '')]"
  have h1: "get_json blank_request = Inr (JObj ?kvs)" by (simp add: blank_request_def)
  have h2: "map_of ?kvs ''name'' = Some (JStr '' '')" by simp
  have h3: "map_of ?kvs ''email'' = Some (JStr '' '')" by simp
  have h4: "map_of ?kvs ''message'' = Some (JStr '' '')" by simp
  have ne: "'' '' \<noteq> []" by simp
  have sp: "list_all is_space '' ''" by (simp add: is_space_def)
  have s: "session_new test_store = []" "session_flushed test_store = []"
    by (simp_all add: test_store_def)
  have c: "contact_messages test_store = []" by (simp add: test_store_def)
  have r: "remote_addr blank_request = Some ''127.0.0.1''" by (simp add: blank_request_def)
  from C10_whitespace_fields_are_accepted[OF h1 h2 ne sp h3 ne sp h4 ne sp s, of test_time]
    h1 sp s
  show ?thesis by (simp add: c r next_id_def)
qed

end
